theory Spec2Isabelle
  imports Complex_Main
begin

section \<open>The translation gateway of app.py\<close>

text \<open>
  app.py is a Flask module with two view functions, \<open>translate_text\<close> (POST /translate)
  and \<open>ping\<close> (GET /ping). The first one reads the JSON body of the request, checks three
  fields, calls the Microsoft Translator API through \<open>requests.post\<close> and maps the answer
  to a JSON response.

  The embedding makes explicit what the Python leaves implicit:
  \<^item> a value decoded from JSON is a \<open>json\<close>; a Python dict is an association list read
    with \<open>map_of\<close> (the first binding of a key is the one the dict holds);
  \<^item> an exception is a value \<open>Inl e\<close> of \<open>exn + 'a\<close>;
  \<^item> the network is a parameter: \<open>post\<close> maps the arguments of \<open>requests.post\<close> to
    what the call does, raise or return a response;
  \<^item> the invocations of \<open>requests.post\<close> and of \<open>print\<close> are recorded, in order, in a
    list of events returned beside the result.
\<close>

subsection \<open>Values\<close>

datatype pyfloat = FFinite rat | FInf bool | FNaN

datatype json =
    JNull
  | JBool bool
  | JInt int
  | JFloat pyfloat
  | JStr string
  | JList "json list"
  | JDict "(string \<times> json) list"

text \<open>
  The exceptions the handler can meet. \<open>RequestException\<close> stands for
  \<open>requests.exceptions.RequestException\<close> and those of its subclasses that carry only a
  message (ConnectionError, Timeout, and so on); \<open>HTTPError\<close> is the subclass that
  \<open>raise_for_status\<close> raises, with the status it rejects. The others are Python's
  built-in exceptions, none of them a \<open>RequestException\<close>.
\<close>

datatype exn =
    RequestException string
  | HTTPError int
  | ValueError string
  | AttributeError
  | IndexError
  | KeyError
  | TypeError

fun is_RequestException :: "exn \<Rightarrow> bool" where
  "is_RequestException (RequestException _) = True"
| "is_RequestException (HTTPError _) = True"
| "is_RequestException _ = False"

text \<open>Truth value testing, as \<open>all\<close> applies it to each element: \<open>None\<close>, \<open>False\<close>,
  zero (the float zero of either sign is \<open>FFinite 0\<close>) and the empty string, list and
  dict are false, every other value is true.\<close>

fun truthy :: "json \<Rightarrow> bool" where
  "truthy JNull = False"
| "truthy (JBool b) = b"
| "truthy (JInt i) = (i \<noteq> 0)"
| "truthy (JFloat f) = (f \<noteq> FFinite 0)"
| "truthy (JStr s) = (s \<noteq> [])"
| "truthy (JList xs) = (xs \<noteq> [])"
| "truthy (JDict kvs) = (kvs \<noteq> [])"

definition py_all :: "json list \<Rightarrow> bool" where
  "py_all xs = list_all truthy xs"

text \<open>\<open>data.get(key)\<close>: only a dict has the method; a missing key gives \<open>None\<close>.\<close>

fun py_get :: "json \<Rightarrow> string \<Rightarrow> exn + json" where
  "py_get (JDict kvs) key = Inr (case map_of kvs key of None \<Rightarrow> JNull | Some v \<Rightarrow> v)"
| "py_get _ key = Inl AttributeError"

text \<open>\<open>obj[0]\<close> and \<open>obj["key"]\<close>. The keys of a decoded JSON object are strings, so
  the integer \<open>0\<close> is never one of them.\<close>

fun subscript_0 :: "json \<Rightarrow> exn + json" where
  "subscript_0 (JList xs) = (case xs of [] \<Rightarrow> Inl IndexError | x # _ \<Rightarrow> Inr x)"
| "subscript_0 (JStr s) = (case s of [] \<Rightarrow> Inl IndexError | c # _ \<Rightarrow> Inr (JStr [c]))"
| "subscript_0 (JDict kvs) = Inl KeyError"
| "subscript_0 _ = Inl TypeError"

fun subscript_key :: "json \<Rightarrow> string \<Rightarrow> exn + json" where
  "subscript_key (JDict kvs) key = (case map_of kvs key of None \<Rightarrow> Inl KeyError | Some v \<Rightarrow> Inr v)"
| "subscript_key _ key = Inl TypeError"

text \<open>Sequencing of statements that may raise.\<close>

definition then_do :: "exn + 'a \<Rightarrow> ('a \<Rightarrow> exn + 'b) \<Rightarrow> exn + 'b" where
  "then_do r f = (case r of Inl e \<Rightarrow> Inl e | Inr x \<Rightarrow> f x)"

subsection \<open>Configuration\<close>

type_synonym environ = "string \<rightharpoonup> string"

definition getenv :: "environ \<Rightarrow> string \<Rightarrow> string option" where
  "getenv env name = env name"

definition getenv_default :: "environ \<Rightarrow> string \<Rightarrow> string \<Rightarrow> string" where
  "getenv_default env name dflt = (case env name of None \<Rightarrow> dflt | Some v \<Rightarrow> v)"

record config =
  API_KEY :: "string option"
  REGION :: string

definition load_config :: "environ \<Rightarrow> config" where
  "load_config env =
     \<lparr>API_KEY = getenv env ''MICROSOFT_TRANSLATE_API_KEY'',
      REGION = getenv_default env ''MICROSOFT_TRANSLATE_REGION'' ''ukwest''\<rparr>"

subsection \<open>The upstream call\<close>

text \<open>The arguments of \<open>requests.post(endpoint, params=params, headers=headers, json=body)\<close>.\<close>

record upstream_call =
  endpoint :: string
  params :: "(string \<times> json) list"
  headers :: "(string \<times> string option) list"
  body :: json

text \<open>
  What the handler reads of the \<open>requests.Response\<close>: its status code, and what its
  \<open>json()\<close> method does, which is to return the decoded body or to raise (a
  \<open>RequestException\<close> subclass in requests 2.27 and later, a \<open>ValueError\<close> before).
\<close>

record upstream_response =
  status_code :: int
  json_result :: "exn + json"

type_synonym upstream = "upstream_call \<Rightarrow> exn + upstream_response"

text \<open>\<open>Response.raise_for_status\<close> of the requests library raises \<open>HTTPError\<close> for the
  client errors 400 to 499 and the server errors 500 to 599, and returns otherwise.\<close>

definition raise_for_status :: "upstream_response \<Rightarrow> exn + unit" where
  "raise_for_status response =
     (if 400 \<le> status_code response \<and> status_code response < 600
      then Inl (HTTPError (status_code response)) else Inr ())"

datatype event = HttpPost upstream_call | Print exn

fun upstream_calls :: "event list \<Rightarrow> upstream_call list" where
  "upstream_calls [] = []"
| "upstream_calls (HttpPost c # evs) = c # upstream_calls evs"
| "upstream_calls (Print e # evs) = upstream_calls evs"

subsection \<open>Responses\<close>

record response =
  http_status :: int
  json_body :: json

text \<open>\<open>jsonify(obj)\<close> is a response with status 200; a view that returns the pair
  \<open>(response, status)\<close> sets the status.\<close>

definition jsonify :: "json \<Rightarrow> response" where
  "jsonify obj = \<lparr>http_status = 200, json_body = obj\<rparr>"

definition with_status :: "response \<Rightarrow> int \<Rightarrow> response" where
  "with_status r code = r\<lparr>http_status := code\<rparr>"

subsection \<open>The view functions\<close>

text \<open>Lines 62 to 74: the arguments of the upstream call.\<close>

definition upstream_request :: "config \<Rightarrow> json \<Rightarrow> json \<Rightarrow> json \<Rightarrow> upstream_call" where
  "upstream_request cfg source_lang target_lang text =
     \<lparr>endpoint = ''https://api.cognitive.microsofttranslator.com/translate'',
      params = [(''api-version'', JStr ''3.0''), (''from'', source_lang), (''to'', target_lang)],
      headers = [(''Ocp-Apim-Subscription-Key'', API_KEY cfg),
                 (''Ocp-Apim-Subscription-Region'', Some (REGION cfg)),
                 (''Content-type'', Some ''application/json'')],
      body = JList [JDict [(''text'', text)]]\<rparr>"

text \<open>Line 80: \<open>response.json()[0]["translations"][0]["text"]\<close>.\<close>

definition extract_translation :: "json \<Rightarrow> exn + json" where
  "extract_translation payload =
     then_do (subscript_0 payload) (\<lambda>first.
     then_do (subscript_key first ''translations'') (\<lambda>translations.
     then_do (subscript_0 translations) (\<lambda>result.
     subscript_key result ''text'')))"

text \<open>Lines 78 to 80: the body of the \<open>try\<close> block up to the value of \<open>translation\<close>.\<close>

definition try_block :: "upstream \<Rightarrow> upstream_call \<Rightarrow> exn + json" where
  "try_block post call =
     then_do (post call) (\<lambda>response.
     then_do (raise_for_status response) (\<lambda>_.
     then_do (json_result response) extract_translation))"

text \<open>
  The view function of POST /translate. Its argument \<open>data\<close> is the value of
  \<open>request.get_json()\<close>; when Flask rejects the request inside \<open>get_json\<close>, nothing
  of the function below that line runs. The result is the response the function returns,
  or the exception that leaves it (only a \<open>RequestException\<close> raised inside the \<open>try\<close>
  block is handled), and the events in the order they happen. An \<open>HttpPost\<close> event is
  one invocation of \<open>requests.post\<close>.
\<close>

definition translate_text ::
  "config \<Rightarrow> upstream \<Rightarrow> json \<Rightarrow> (exn + response) \<times> event list" where
  "translate_text cfg post data =
     (case py_get data ''source_lang'' of Inl e \<Rightarrow> (Inl e, []) | Inr source_lang \<Rightarrow>
     (case py_get data ''target_lang'' of Inl e \<Rightarrow> (Inl e, []) | Inr target_lang \<Rightarrow>
     (case py_get data ''text'' of Inl e \<Rightarrow> (Inl e, []) | Inr text \<Rightarrow>
       (if \<not> py_all [source_lang, target_lang, text]
        then (Inr (with_status (jsonify (JDict [(''error'', JStr ''Missing required fields'')])) 400), [])
        else
          (let call = upstream_request cfg source_lang target_lang text in
           (case try_block post call of
              Inr translation \<Rightarrow>
                (Inr (jsonify (JDict [(''translated_text'', translation)])), [HttpPost call])
            | Inl e \<Rightarrow>
                (if is_RequestException e
                 then (Inr (with_status (jsonify (JDict [(''error'', JStr ''Translation failed'')])) 500),
                       [HttpPost call, Print e])
                 else (Inl e, [HttpPost call]))))))))"

definition ping :: response where
  "ping = jsonify (JDict [(''message'', JStr ''Flask backend is working!'')])"

text \<open>
  The two \<open>@app.route\<close> registrations: \<open>/translate\<close> with \<open>methods=["POST"]\<close> and
  \<open>/ping\<close> with the default method GET, to which Flask adds HEAD and runs the same view
  for it. \<open>ping\<close> reads neither the configuration nor the request and calls nothing. A
  request that neither registration names is left to Flask (\<open>None\<close>).
\<close>

definition dispatch ::
  "config \<Rightarrow> upstream \<Rightarrow> string \<Rightarrow> string \<Rightarrow> json \<Rightarrow> ((exn + response) \<times> event list) option" where
  "dispatch cfg post method path data =
     (if path = ''/translate'' \<and> method = ''POST'' then Some (translate_text cfg post data)
      else if path = ''/ping'' \<and> (method = ''GET'' \<or> method = ''HEAD'') then Some (Inr ping, [])
      else None)"

subsection \<open>Concrete requests and upstream behaviours\<close>

text \<open>Fixed inputs on which the properties below are evaluated: a configuration, the
  request of the docstring, and upstream providers that raise or answer the same way
  whatever they are called with.\<close>

definition example_config :: config where
  "example_config = \<lparr>API_KEY = Some ''secret'', REGION = ''ukwest''\<rparr>"

definition example_request :: json where
  "example_request =
     JDict [(''source_lang'', JStr ''en''), (''target_lang'', JStr ''fr''), (''text'', JStr ''Hello'')]"

definition bonjour_payload :: json where
  "bonjour_payload = JList [JDict [(''translations'', JList [JDict [(''text'', JStr ''Bonjour'')]])]]"

definition error_payload :: json where
  "error_payload =
     JDict [(''error'', JDict [(''code'', JInt 400000), (''message'', JStr ''upstream detail'')])]"

definition upstream_raises :: "exn \<Rightarrow> upstream" where
  "upstream_raises e call = Inl e"

definition upstream_answers :: "int \<Rightarrow> exn + json \<Rightarrow> upstream" where
  "upstream_answers code decoded call = Inr \<lparr>status_code = code, json_result = decoded\<rparr>"

section \<open>Properties\<close>

text \<open>
  C6: \<open>ping\<close> takes no input and always returns HTTP 200 with the fixed body
  \<open>{"message": "Flask backend is working!"}\<close>, whatever the configuration, the upstream
  provider and the request are; it makes no upstream call and logs nothing.
\<close>

theorem ping_fixed_response:
  "dispatch cfg post ''GET'' ''/ping'' data =
     Some (Inr \<lparr>http_status = 200,
                json_body = JDict [(''message'', JStr ''Flask backend is working!'')]\<rparr>, [])
   \<and> ping = \<lparr>http_status = 200,
             json_body = JDict [(''message'', JStr ''Flask backend is working!'')]\<rparr>"
  by (simp add: dispatch_def ping_def jsonify_def)

subsection \<open>How the handler unfolds\<close>

lemma translate_text_not_dict:
  assumes "\<forall>kvs. data \<noteq> JDict kvs"
  shows "translate_text cfg post data = (Inl AttributeError, [])"
  using assms by (cases data) (simp_all add: translate_text_def)

lemma translate_text_invalid:
  assumes "\<not> py_all [case map_of kvs ''source_lang'' of None \<Rightarrow> JNull | Some v \<Rightarrow> v,
                      case map_of kvs ''target_lang'' of None \<Rightarrow> JNull | Some v \<Rightarrow> v,
                      case map_of kvs ''text'' of None \<Rightarrow> JNull | Some v \<Rightarrow> v]"
  shows "translate_text cfg post (JDict kvs) =
     (Inr \<lparr>http_status = 400, json_body = JDict [(''error'', JStr ''Missing required fields'')]\<rparr>, [])"
  using assms by (simp add: translate_text_def jsonify_def with_status_def)

lemma translate_text_valid:
  assumes "map_of kvs ''source_lang'' = Some src" and "map_of kvs ''target_lang'' = Some tgt"
    and "map_of kvs ''text'' = Some txt" and "truthy src" and "truthy tgt" and "truthy txt"
  shows "translate_text cfg post (JDict kvs) =
     (case try_block post (upstream_request cfg src tgt txt) of
        Inr translation \<Rightarrow>
          (Inr \<lparr>http_status = 200, json_body = JDict [(''translated_text'', translation)]\<rparr>,
           [HttpPost (upstream_request cfg src tgt txt)])
      | Inl e \<Rightarrow>
          (if is_RequestException e
           then (Inr \<lparr>http_status = 500, json_body = JDict [(''error'', JStr ''Translation failed'')]\<rparr>,
                 [HttpPost (upstream_request cfg src tgt txt), Print e])
           else (Inl e, [HttpPost (upstream_request cfg src tgt txt)])))"
  using assms
  by (simp add: translate_text_def py_all_def Let_def jsonify_def with_status_def
           split: sum.splits)

lemma py_all_fields:
  "py_all [case map_of kvs ''source_lang'' of None \<Rightarrow> JNull | Some v \<Rightarrow> v,
           case map_of kvs ''target_lang'' of None \<Rightarrow> JNull | Some v \<Rightarrow> v,
           case map_of kvs ''text'' of None \<Rightarrow> JNull | Some v \<Rightarrow> v] \<longleftrightarrow>
   (\<exists>src tgt txt. map_of kvs ''source_lang'' = Some src \<and> map_of kvs ''target_lang'' = Some tgt \<and>
      map_of kvs ''text'' = Some txt \<and> truthy src \<and> truthy tgt \<and> truthy txt)"
  by (auto simp: py_all_def split: option.splits)

lemma try_block_post_raises:
  "post call = Inl e \<Longrightarrow> try_block post call = Inl e"
  by (simp add: try_block_def then_do_def)

lemma try_block_status_rejected:
  "post call = Inr r \<Longrightarrow> 400 \<le> status_code r \<Longrightarrow> status_code r < 600 \<Longrightarrow>
   try_block post call = Inl (HTTPError (status_code r))"
  by (simp add: try_block_def then_do_def raise_for_status_def)

lemma try_block_status_accepted:
  "post call = Inr r \<Longrightarrow> \<not> (400 \<le> status_code r \<and> status_code r < 600) \<Longrightarrow>
   try_block post call = then_do (json_result r) extract_translation"
  by (auto simp: try_block_def then_do_def raise_for_status_def)

lemma extract_translation_first:
  assumes "map_of item ''translations'' = Some (JList (JDict res # ress))"
    and "map_of res ''text'' = Some t"
  shows "extract_translation (JList (JDict item # items)) = Inr t"
  using assms by (simp add: extract_translation_def then_do_def)

lemma try_block_caught:
  assumes "(\<exists>e. post call = Inl e \<and> is_RequestException e) \<or>
           (\<exists>r. post call = Inr r \<and>
              (400 \<le> status_code r \<and> status_code r < 600 \<or>
               (\<exists>e. json_result r = Inl e \<and> is_RequestException e)))"
  shows "\<exists>e. try_block post call = Inl e \<and> is_RequestException e"
proof -
  consider (raised) e where "post call = Inl e" "is_RequestException e"
    | (status) r where "post call = Inr r" "400 \<le> status_code r \<and> status_code r < 600"
    | (decode) r e where "post call = Inr r" "\<not> (400 \<le> status_code r \<and> status_code r < 600)"
        "json_result r = Inl e" "is_RequestException e"
    using assms by blast
  then show ?thesis
  proof cases
    case raised
    then show ?thesis by (simp add: try_block_post_raises)
  next
    case status
    then show ?thesis by (simp add: try_block_status_rejected)
  next
    case decode
    then show ?thesis by (simp add: try_block_status_accepted then_do_def)
  qed
qed

lemma translate_text_caught:
  assumes "map_of kvs ''source_lang'' = Some src" and "map_of kvs ''target_lang'' = Some tgt"
    and "map_of kvs ''text'' = Some txt" and "truthy src" and "truthy tgt" and "truthy txt"
    and "(\<exists>e. post (upstream_request cfg src tgt txt) = Inl e \<and> is_RequestException e) \<or>
         (\<exists>r. post (upstream_request cfg src tgt txt) = Inr r \<and>
            (400 \<le> status_code r \<and> status_code r < 600 \<or>
             (\<exists>e. json_result r = Inl e \<and> is_RequestException e)))"
  shows "fst (translate_text cfg post (JDict kvs)) =
     Inr \<lparr>http_status = 500, json_body = JDict [(''error'', JStr ''Translation failed'')]\<rparr>"
proof -
  obtain e where "try_block post (upstream_request cfg src tgt txt) = Inl e" "is_RequestException e"
    using try_block_caught [of post "upstream_request cfg src tgt txt"] assms(7) by blast
  then show ?thesis
    by (simp add: translate_text_valid [OF assms(1-6)])
qed

subsection \<open>Validation\<close>

text \<open>
  C3, as the code has it: for every request body that is a JSON object in which one of
  \<open>source_lang\<close>, \<open>target_lang\<close>, \<open>text\<close> is missing or is the empty string, the handler
  returns HTTP 400 with body \<open>{"error": "Missing required fields"}\<close> and the list of
  events is empty: no upstream call is issued.
\<close>

theorem missing_or_empty_field_rejected:
  assumes "k \<in> {''source_lang'', ''target_lang'', ''text''}"
    and "map_of kvs k = None \<or> map_of kvs k = Some (JStr [])"
  shows "translate_text cfg post (JDict kvs) =
     (Inr \<lparr>http_status = 400, json_body = JDict [(''error'', JStr ''Missing required fields'')]\<rparr>, [])"
  using assms by (intro translate_text_invalid) (auto simp: py_all_def)

theorem missing_or_empty_field_rejected_witness:
  "translate_text example_config (upstream_answers 200 (Inr bonjour_payload))
     (JDict [(''source_lang'', JStr ''en''), (''text'', JStr ''Hello'')]) =
     (Inr \<lparr>http_status = 400, json_body = JDict [(''error'', JStr ''Missing required fields'')]\<rparr>, [])
   \<and> translate_text example_config (upstream_answers 200 (Inr bonjour_payload))
     (JDict [(''source_lang'', JStr ''en''), (''target_lang'', JStr ''fr''), (''text'', JStr [])]) =
     (Inr \<lparr>http_status = 400, json_body = JDict [(''error'', JStr ''Missing required fields'')]\<rparr>, [])"
  using missing_or_empty_field_rejected [of "''target_lang''"
          "[(''source_lang'', JStr ''en''), (''text'', JStr ''Hello'')]"
          example_config "upstream_answers 200 (Inr bonjour_payload)"]
        missing_or_empty_field_rejected [of "''text''"
          "[(''source_lang'', JStr ''en''), (''target_lang'', JStr ''fr''), (''text'', JStr [])]"
          example_config "upstream_answers 200 (Inr bonjour_payload)"]
  by simp

text \<open>
  C3 as stated, for every request body, fails on the bodies that are not objects. In
  \<open>null\<close>, in the list \<open>[1]\<close>, in the string \<open>"abc"\<close> and in the number \<open>5\<close> all
  three fields are missing, but none of these values has a \<open>get\<close> method: line 54 raises
  \<open>AttributeError\<close>, which leaves the handler before the check of line 59, so no 400
  response is returned. (No upstream call is issued there either.)
\<close>

theorem missing_or_empty_field_rejected_counterexample:
  "translate_text example_config (upstream_answers 200 (Inr bonjour_payload)) JNull =
     (Inl AttributeError, [])
   \<and> translate_text example_config (upstream_answers 200 (Inr bonjour_payload)) (JList [JInt 1]) =
     (Inl AttributeError, [])
   \<and> translate_text example_config (upstream_answers 200 (Inr bonjour_payload)) (JStr ''abc'') =
     (Inl AttributeError, [])
   \<and> translate_text example_config (upstream_answers 200 (Inr bonjour_payload)) (JInt 5) =
     (Inl AttributeError, [])"
  by (simp add: translate_text_def)

text \<open>
  C10: validation rejects every falsy value of a field, not only a missing field or the
  empty string: when \<open>source_lang\<close>, \<open>target_lang\<close> or \<open>text\<close> is present with a value
  whose truth value is false (the number 0, \<open>false\<close>, an empty list, ...), the handler
  returns HTTP 400 with \<open>{"error": "Missing required fields"}\<close> and issues no upstream
  call.
\<close>

theorem falsy_field_rejected:
  assumes "k \<in> {''source_lang'', ''target_lang'', ''text''}"
    and "map_of kvs k = Some v" and "\<not> truthy v"
  shows "translate_text cfg post (JDict kvs) =
     (Inr \<lparr>http_status = 400, json_body = JDict [(''error'', JStr ''Missing required fields'')]\<rparr>, [])"
  using assms by (intro translate_text_invalid) (auto simp: py_all_def)

theorem falsy_field_rejected_witness:
  "translate_text example_config (upstream_answers 200 (Inr bonjour_payload))
     (JDict [(''source_lang'', JInt 0), (''target_lang'', JStr ''fr''), (''text'', JStr ''Hello'')]) =
     (Inr \<lparr>http_status = 400, json_body = JDict [(''error'', JStr ''Missing required fields'')]\<rparr>, [])
   \<and> translate_text example_config (upstream_answers 200 (Inr bonjour_payload))
     (JDict [(''source_lang'', JStr ''en''), (''target_lang'', JBool False), (''text'', JStr ''Hello'')]) =
     (Inr \<lparr>http_status = 400, json_body = JDict [(''error'', JStr ''Missing required fields'')]\<rparr>, [])
   \<and> translate_text example_config (upstream_answers 200 (Inr bonjour_payload))
     (JDict [(''source_lang'', JStr ''en''), (''target_lang'', JStr ''fr''), (''text'', JList [])]) =
     (Inr \<lparr>http_status = 400, json_body = JDict [(''error'', JStr ''Missing required fields'')]\<rparr>, [])"
  using falsy_field_rejected [of "''source_lang''"
          "[(''source_lang'', JInt 0), (''target_lang'', JStr ''fr''), (''text'', JStr ''Hello'')]"
          "JInt 0" example_config "upstream_answers 200 (Inr bonjour_payload)"]
        falsy_field_rejected [of "''target_lang''"
          "[(''source_lang'', JStr ''en''), (''target_lang'', JBool False), (''text'', JStr ''Hello'')]"
          "JBool False" example_config "upstream_answers 200 (Inr bonjour_payload)"]
        falsy_field_rejected [of "''text''"
          "[(''source_lang'', JStr ''en''), (''target_lang'', JStr ''fr''), (''text'', JList [])]"
          "JList []" example_config "upstream_answers 200 (Inr bonjour_payload)"]
  by simp

text \<open>
  C9: language codes are not checked for their format. Whenever the three fields are
  non-empty strings, whatever the strings are, validation passes (the response is not the
  validation error) and the one upstream call carries \<open>source_lang\<close> and \<open>target_lang\<close>
  unchanged as its \<open>from\<close> and \<open>to\<close> parameters.
\<close>

theorem language_codes_forwarded_unchecked:
  assumes "map_of kvs ''source_lang'' = Some (JStr s)" and "map_of kvs ''target_lang'' = Some (JStr t)"
    and "map_of kvs ''text'' = Some (JStr x)" and "s \<noteq> []" and "t \<noteq> []" and "x \<noteq> []"
  shows "fst (translate_text cfg post (JDict kvs)) \<noteq>
           Inr \<lparr>http_status = 400, json_body = JDict [(''error'', JStr ''Missing required fields'')]\<rparr>
         \<and> (\<exists>c. upstream_calls (snd (translate_text cfg post (JDict kvs))) = [c] \<and>
                map_of (params c) ''from'' = Some (JStr s) \<and>
                map_of (params c) ''to'' = Some (JStr t))"
proof -
  have "truthy (JStr s)" "truthy (JStr t)" "truthy (JStr x)"
    using assms(4-6) by simp_all
  note unfolded = translate_text_valid [OF assms(1-3) this, of cfg post]
  show ?thesis
    by (cases "try_block post (upstream_request cfg (JStr s) (JStr t) (JStr x))")
       (simp_all add: unfolded upstream_request_def)
qed

theorem language_codes_forwarded_unchecked_witness:
  "fst (translate_text example_config (upstream_raises (RequestException ''refused''))
          (JDict [(''source_lang'', JStr ''not a language''), (''target_lang'', JStr ''??''),
                  (''text'', JStr ''Hello'')])) \<noteq>
     Inr \<lparr>http_status = 400, json_body = JDict [(''error'', JStr ''Missing required fields'')]\<rparr>
   \<and> (\<exists>c. upstream_calls (snd (translate_text example_config (upstream_raises (RequestException ''refused''))
          (JDict [(''source_lang'', JStr ''not a language''), (''target_lang'', JStr ''??''),
                  (''text'', JStr ''Hello'')]))) = [c] \<and>
          map_of (params c) ''from'' = Some (JStr ''not a language'') \<and>
          map_of (params c) ''to'' = Some (JStr ''??''))"
  using language_codes_forwarded_unchecked [of
          "[(''source_lang'', JStr ''not a language''), (''target_lang'', JStr ''??''),
            (''text'', JStr ''Hello'')]"
          "''not a language''" "''??''" "''Hello''"
          example_config "upstream_raises (RequestException ''refused'')"]
  by simp

subsection \<open>The upstream call\<close>

text \<open>
  C7: for every valid request (the three fields present and truthy) the handler invokes
  \<open>requests.post\<close> once, on the fixed endpoint, with the query parameters exactly
  \<open>api-version=3.0\<close>, \<open>from=source_lang\<close>, \<open>to=target_lang\<close>, with headers that carry
  the configured subscription key and region (and the content type), and with the JSON
  body exactly \<open>[{"text": text}]\<close>, the caller's text unmodified.
\<close>

theorem upstream_call_arguments:
  assumes "map_of kvs ''source_lang'' = Some src" and "map_of kvs ''target_lang'' = Some tgt"
    and "map_of kvs ''text'' = Some txt" and "truthy src" and "truthy tgt" and "truthy txt"
  shows "upstream_calls (snd (translate_text cfg post (JDict kvs))) =
     [\<lparr>endpoint = ''https://api.cognitive.microsofttranslator.com/translate'',
       params = [(''api-version'', JStr ''3.0''), (''from'', src), (''to'', tgt)],
       headers = [(''Ocp-Apim-Subscription-Key'', API_KEY cfg),
                  (''Ocp-Apim-Subscription-Region'', Some (REGION cfg)),
                  (''Content-type'', Some ''application/json'')],
       body = JList [JDict [(''text'', txt)]]\<rparr>]"
  by (cases "try_block post (upstream_request cfg src tgt txt)")
     (simp_all add: translate_text_valid [OF assms] upstream_request_def)

theorem upstream_call_arguments_witness:
  "upstream_calls (snd (translate_text example_config (upstream_answers 200 (Inr bonjour_payload))
      (JDict [(''source_lang'', JStr ''en''), (''target_lang'', JStr ''fr''), (''text'', JStr ''Hello'')]))) =
     [\<lparr>endpoint = ''https://api.cognitive.microsofttranslator.com/translate'',
       params = [(''api-version'', JStr ''3.0''), (''from'', JStr ''en''), (''to'', JStr ''fr'')],
       headers = [(''Ocp-Apim-Subscription-Key'', Some ''secret''),
                  (''Ocp-Apim-Subscription-Region'', Some ''ukwest''),
                  (''Content-type'', Some ''application/json'')],
       body = JList [JDict [(''text'', JStr ''Hello'')]]\<rparr>]"
  using upstream_call_arguments [of
          "[(''source_lang'', JStr ''en''), (''target_lang'', JStr ''fr''), (''text'', JStr ''Hello'')]"
          "JStr ''en''" "JStr ''fr''" "JStr ''Hello''"
          example_config "upstream_answers 200 (Inr bonjour_payload)"]
  by (simp add: example_config_def)

text \<open>
  C8: every invocation of the handler makes at most one upstream call, whatever the
  upstream does: exactly one when validation passes (the body is an object whose three
  fields are present and truthy) and none otherwise. There is no retry.
\<close>

theorem at_most_one_upstream_call:
  "length (upstream_calls (snd (translate_text cfg post data))) \<le> 1 \<and>
   (length (upstream_calls (snd (translate_text cfg post data))) = 1 \<longleftrightarrow>
      (\<exists>kvs src tgt txt. data = JDict kvs \<and>
         map_of kvs ''source_lang'' = Some src \<and> map_of kvs ''target_lang'' = Some tgt \<and>
         map_of kvs ''text'' = Some txt \<and> truthy src \<and> truthy tgt \<and> truthy txt))"
  (is "?calls \<le> 1 \<and> (?calls = 1 \<longleftrightarrow> ?passes)")
proof (cases ?passes)
  case True
  then obtain kvs src tgt tx where data: "data = JDict kvs"
    and fields: "map_of kvs ''source_lang'' = Some src"
      "map_of kvs ''target_lang'' = Some tgt" "map_of kvs ''text'' = Some tx"
      "truthy src" "truthy tgt" "truthy tx"
    by blast
  have "?calls = 1"
    unfolding data
    by (cases "try_block post (upstream_request cfg src tgt tx)")
       (simp_all add: translate_text_valid [OF fields])
  with True show ?thesis by (simp only: simp_thms order_refl)
next
  case False
  have "translate_text cfg post data = (Inl AttributeError, []) \<or>
        translate_text cfg post data =
          (Inr \<lparr>http_status = 400,
                 json_body = JDict [(''error'', JStr ''Missing required fields'')]\<rparr>, [])"
  proof (cases "\<exists>kvs. data = JDict kvs")
    case no_dict: False
    then have "\<forall>kvs. data \<noteq> JDict kvs" by blast
    then show ?thesis by (simp only: translate_text_not_dict simp_thms)
  next
    case True
    then obtain kvs where data: "data = JDict kvs" by blast
    have "\<not> (\<exists>src tgt txt. map_of kvs ''source_lang'' = Some src \<and>
        map_of kvs ''target_lang'' = Some tgt \<and> map_of kvs ''text'' = Some txt \<and>
        truthy src \<and> truthy tgt \<and> truthy txt)"
      using False data by blast
    then have "\<not> py_all [case map_of kvs ''source_lang'' of None \<Rightarrow> JNull | Some v \<Rightarrow> v,
                         case map_of kvs ''target_lang'' of None \<Rightarrow> JNull | Some v \<Rightarrow> v,
                         case map_of kvs ''text'' of None \<Rightarrow> JNull | Some v \<Rightarrow> v]"
      unfolding py_all_fields .
    then show ?thesis
      unfolding data by (intro disjI2 translate_text_invalid)
  qed
  then have "?calls = 0" by (elim disjE) simp_all
  with False show ?thesis by (simp only: simp_thms) simp
qed

theorem at_most_one_upstream_call_witness:
  "length (upstream_calls (snd (translate_text example_config
      (upstream_raises (RequestException ''timed out'')) example_request))) = 1
   \<and> length (upstream_calls (snd (translate_text example_config
      (upstream_raises (RequestException ''timed out''))
      (JDict [(''source_lang'', JStr ''en''), (''text'', JStr ''Hello'')])))) = 0"
proof -
  have valid: "\<exists>kvs src tgt txt. example_request = JDict kvs \<and>
      map_of kvs ''source_lang'' = Some src \<and> map_of kvs ''target_lang'' = Some tgt \<and>
      map_of kvs ''text'' = Some txt \<and> truthy src \<and> truthy tgt \<and> truthy txt"
    by (simp add: example_request_def)
  have invalid: "\<not> (\<exists>kvs src tgt txt.
      JDict [(''source_lang'', JStr ''en''), (''text'', JStr ''Hello'')] = JDict kvs \<and>
      map_of kvs ''source_lang'' = Some src \<and> map_of kvs ''target_lang'' = Some tgt \<and>
      map_of kvs ''text'' = Some txt \<and> truthy src \<and> truthy tgt \<and> truthy txt)"
    by simp
  from valid at_most_one_upstream_call [of example_config
      "upstream_raises (RequestException ''timed out'')" example_request]
  have one: "length (upstream_calls (snd (translate_text example_config
      (upstream_raises (RequestException ''timed out'')) example_request))) = 1"
    by blast
  from invalid at_most_one_upstream_call [of example_config
      "upstream_raises (RequestException ''timed out'')"
      "JDict [(''source_lang'', JStr ''en''), (''text'', JStr ''Hello'')]"]
  have "length (upstream_calls (snd (translate_text example_config
      (upstream_raises (RequestException ''timed out''))
      (JDict [(''source_lang'', JStr ''en''), (''text'', JStr ''Hello'')])))) \<le> 1
    \<and> length (upstream_calls (snd (translate_text example_config
      (upstream_raises (RequestException ''timed out''))
      (JDict [(''source_lang'', JStr ''en''), (''text'', JStr ''Hello'')])))) \<noteq> 1"
    by blast
  then have none: "length (upstream_calls (snd (translate_text example_config
      (upstream_raises (RequestException ''timed out''))
      (JDict [(''source_lang'', JStr ''en''), (''text'', JStr ''Hello'')])))) = 0"
    by arith
  from one none show ?thesis by (rule conjI)
qed

subsection \<open>Success\<close>

text \<open>
  C2: for every request whose three fields are present and non-empty (truthy), if the
  upstream call returns a response with a 2xx status whose decoded body is a list that
  starts with an object whose \<open>translations\<close> is a list that starts with an object with
  \<open>text\<close> equal to \<open>T\<close> (in particular the body \<open>[{"translations": [{"text": T}]}]\<close>), the
  handler returns HTTP 200 with body \<open>{"translated_text": T}\<close>.
\<close>

theorem successful_translation_returned:
  assumes "map_of kvs ''source_lang'' = Some src" and "map_of kvs ''target_lang'' = Some tgt"
    and "map_of kvs ''text'' = Some txt" and "truthy src" and "truthy tgt" and "truthy txt"
    and "post (upstream_request cfg src tgt txt) = Inr r"
    and "200 \<le> status_code r" and "status_code r < 300"
    and "json_result r = Inr (JList (JDict item # items))"
    and "map_of item ''translations'' = Some (JList (JDict res # ress))"
    and "map_of res ''text'' = Some T"
  shows "fst (translate_text cfg post (JDict kvs)) =
     Inr \<lparr>http_status = 200, json_body = JDict [(''translated_text'', T)]\<rparr>"
proof -
  have "\<not> (400 \<le> status_code r \<and> status_code r < 600)"
    using assms(9) by simp
  then have "try_block post (upstream_request cfg src tgt txt) =
      then_do (json_result r) extract_translation"
    using assms(7) by (rule try_block_status_accepted [rotated])
  also have "\<dots> = Inr T"
    by (simp add: assms(10) then_do_def extract_translation_first [OF assms(11,12)])
  finally show ?thesis
    by (simp add: translate_text_valid [OF assms(1-6)])
qed

theorem successful_translation_returned_witness:
  "fst (translate_text example_config (upstream_answers 200 (Inr bonjour_payload))
      (JDict [(''source_lang'', JStr ''en''), (''target_lang'', JStr ''fr''), (''text'', JStr ''Hello'')])) =
     Inr \<lparr>http_status = 200, json_body = JDict [(''translated_text'', JStr ''Bonjour'')]\<rparr>"
  using successful_translation_returned [of
          "[(''source_lang'', JStr ''en''), (''target_lang'', JStr ''fr''), (''text'', JStr ''Hello'')]"
          "JStr ''en''" "JStr ''fr''" "JStr ''Hello''"
          "upstream_answers 200 (Inr bonjour_payload)" example_config
          "\<lparr>status_code = 200, json_result = Inr bonjour_payload\<rparr>"
          "[(''translations'', JList [JDict [(''text'', JStr ''Bonjour'')]])]" "[]"
          "[(''text'', JStr ''Bonjour'')]" "[]" "JStr ''Bonjour''"]
  by (simp add: upstream_answers_def bonjour_payload_def)

subsection \<open>Failure\<close>

lemmas evaluation =
  translate_text_def try_block_def extract_translation_def then_do_def raise_for_status_def
  upstream_request_def py_all_def jsonify_def with_status_def Let_def
  example_config_def example_request_def bonjour_payload_def error_payload_def
  upstream_raises_def upstream_answers_def

lemma translate_text_outcomes:
  "(\<exists>e. fst (translate_text cfg post data) = Inl e) \<or>
   fst (translate_text cfg post data) =
     Inr \<lparr>http_status = 400, json_body = JDict [(''error'', JStr ''Missing required fields'')]\<rparr> \<or>
   fst (translate_text cfg post data) =
     Inr \<lparr>http_status = 500, json_body = JDict [(''error'', JStr ''Translation failed'')]\<rparr> \<or>
   (\<exists>t. fst (translate_text cfg post data) =
     Inr \<lparr>http_status = 200, json_body = JDict [(''translated_text'', t)]\<rparr>)"
proof (cases "\<exists>kvs. data = JDict kvs")
  case False
  then have "\<forall>kvs. data \<noteq> JDict kvs" by blast
  then have "translate_text cfg post data = (Inl AttributeError, [])"
    by (rule translate_text_not_dict)
  then show ?thesis by simp
next
  case True
  then obtain kvs where data: "data = JDict kvs" by blast
  show ?thesis
  proof (cases "py_all [case map_of kvs ''source_lang'' of None \<Rightarrow> JNull | Some v \<Rightarrow> v,
                        case map_of kvs ''target_lang'' of None \<Rightarrow> JNull | Some v \<Rightarrow> v,
                        case map_of kvs ''text'' of None \<Rightarrow> JNull | Some v \<Rightarrow> v]")
    case False
    then show ?thesis
      unfolding data by (simp only: translate_text_invalid fst_conv simp_thms)
  next
    case True
    then obtain src tgt tx where fields: "map_of kvs ''source_lang'' = Some src"
        "map_of kvs ''target_lang'' = Some tgt" "map_of kvs ''text'' = Some tx"
        "truthy src" "truthy tgt" "truthy tx"
      unfolding py_all_fields by blast
    show ?thesis
    proof (cases "try_block post (upstream_request cfg src tgt tx)")
      case (Inl e)
      then show ?thesis
        unfolding data by (cases "is_RequestException e") (simp_all add: translate_text_valid [OF fields])
    next
      case (Inr t)
      then show ?thesis
        unfolding data by (simp add: translate_text_valid [OF fields])
    qed
  qed
qed

text \<open>
  C1, as the code has it: for every valid translate request, a transport-level failure
  (\<open>requests.post\<close> raises a \<open>RequestException\<close>), an upstream status from 400 to 599, or a
  body that \<open>json()\<close> fails to decode with a \<open>RequestException\<close> is caught by the handler
  and mapped to HTTP 500 with body \<open>{"error": "Translation failed"}\<close>.
\<close>

theorem upstream_failure_caught:
  assumes "map_of kvs ''source_lang'' = Some src" and "map_of kvs ''target_lang'' = Some tgt"
    and "map_of kvs ''text'' = Some txt" and "truthy src" and "truthy tgt" and "truthy txt"
    and "(\<exists>e. post (upstream_request cfg src tgt txt) = Inl e \<and> is_RequestException e) \<or>
         (\<exists>r. post (upstream_request cfg src tgt txt) = Inr r \<and>
            (400 \<le> status_code r \<and> status_code r < 600 \<or>
             (\<exists>e. json_result r = Inl e \<and> is_RequestException e)))"
  shows "fst (translate_text cfg post (JDict kvs)) =
     Inr \<lparr>http_status = 500, json_body = JDict [(''error'', JStr ''Translation failed'')]\<rparr>"
  using assms by (rule translate_text_caught)

theorem upstream_failure_caught_witness:
  "fst (translate_text example_config (upstream_raises (RequestException ''Connection refused''))
      (JDict [(''source_lang'', JStr ''en''), (''target_lang'', JStr ''fr''), (''text'', JStr ''Hello'')])) =
     Inr \<lparr>http_status = 500, json_body = JDict [(''error'', JStr ''Translation failed'')]\<rparr>
   \<and> fst (translate_text example_config (upstream_answers 503 (Inr error_payload))
      (JDict [(''source_lang'', JStr ''en''), (''target_lang'', JStr ''fr''), (''text'', JStr ''Hello'')])) =
     Inr \<lparr>http_status = 500, json_body = JDict [(''error'', JStr ''Translation failed'')]\<rparr>
   \<and> fst (translate_text example_config
        (upstream_answers 200 (Inl (RequestException ''Expecting value'')))
      (JDict [(''source_lang'', JStr ''en''), (''target_lang'', JStr ''fr''), (''text'', JStr ''Hello'')])) =
     Inr \<lparr>http_status = 500, json_body = JDict [(''error'', JStr ''Translation failed'')]\<rparr>"
  using upstream_failure_caught [of
          "[(''source_lang'', JStr ''en''), (''target_lang'', JStr ''fr''), (''text'', JStr ''Hello'')]"
          "JStr ''en''" "JStr ''fr''" "JStr ''Hello''"
          "upstream_raises (RequestException ''Connection refused'')" example_config]
        upstream_failure_caught [of
          "[(''source_lang'', JStr ''en''), (''target_lang'', JStr ''fr''), (''text'', JStr ''Hello'')]"
          "JStr ''en''" "JStr ''fr''" "JStr ''Hello''"
          "upstream_answers 503 (Inr error_payload)" example_config]
        upstream_failure_caught [of
          "[(''source_lang'', JStr ''en''), (''target_lang'', JStr ''fr''), (''text'', JStr ''Hello'')]"
          "JStr ''en''" "JStr ''fr''" "JStr ''Hello''"
          "upstream_answers 200 (Inl (RequestException ''Expecting value''))" example_config]
  by (simp add: upstream_raises_def upstream_answers_def)

text \<open>
  C1 as stated fails: a decoded body that lacks the expected fields is not caught. On an
  empty list the subscript raises \<open>IndexError\<close>, on an element without \<open>translations\<close> it
  raises \<open>KeyError\<close>; neither is a \<open>RequestException\<close>, so both leave the handler. And a
  status outside 2xx is a failure only from 400 to 599: with status 300 and a well-formed
  body the handler answers 200 with the translation.
\<close>

theorem upstream_failure_caught_counterexample:
  "fst (translate_text example_config (upstream_answers 200 (Inr (JList []))) example_request) =
     Inl IndexError
   \<and> fst (translate_text example_config (upstream_answers 200 (Inr (JList [JDict []])))
        example_request) = Inl KeyError
   \<and> fst (translate_text example_config (upstream_answers 300 (Inr bonjour_payload))
        example_request) =
     Inr \<lparr>http_status = 200, json_body = JDict [(''translated_text'', JStr ''Bonjour'')]\<rparr>"
  by (simp add: evaluation)

text \<open>
  C4, as the code has it: for any two executions of the handler on the same valid request
  that fail because \<open>requests.post\<close> raised a \<open>RequestException\<close> (whatever its message),
  because the upstream status lies from 400 to 599 (whatever the status), or because
  \<open>json()\<close> raised a \<open>RequestException\<close>, the response returned to the caller is the same:
  status 500 and the constant body \<open>{"error": "Translation failed"}\<close>, in which nothing
  comes from the upstream error.
\<close>

theorem failure_response_hides_cause:
  assumes "map_of kvs ''source_lang'' = Some src" and "map_of kvs ''target_lang'' = Some tgt"
    and "map_of kvs ''text'' = Some txt" and "truthy src" and "truthy tgt" and "truthy txt"
    and "(\<exists>e. post1 (upstream_request cfg src tgt txt) = Inl e \<and> is_RequestException e) \<or>
         (\<exists>r. post1 (upstream_request cfg src tgt txt) = Inr r \<and>
            (400 \<le> status_code r \<and> status_code r < 600 \<or>
             (\<exists>e. json_result r = Inl e \<and> is_RequestException e)))"
    and "(\<exists>e. post2 (upstream_request cfg src tgt txt) = Inl e \<and> is_RequestException e) \<or>
         (\<exists>r. post2 (upstream_request cfg src tgt txt) = Inr r \<and>
            (400 \<le> status_code r \<and> status_code r < 600 \<or>
             (\<exists>e. json_result r = Inl e \<and> is_RequestException e)))"
  shows "fst (translate_text cfg post1 (JDict kvs)) = fst (translate_text cfg post2 (JDict kvs))
     \<and> fst (translate_text cfg post1 (JDict kvs)) =
         Inr \<lparr>http_status = 500, json_body = JDict [(''error'', JStr ''Translation failed'')]\<rparr>"
proof -
  have "fst (translate_text cfg post1 (JDict kvs)) =
      Inr \<lparr>http_status = 500, json_body = JDict [(''error'', JStr ''Translation failed'')]\<rparr>"
    using assms(1-6) assms(7) by (rule translate_text_caught)
  moreover have "fst (translate_text cfg post2 (JDict kvs)) =
      Inr \<lparr>http_status = 500, json_body = JDict [(''error'', JStr ''Translation failed'')]\<rparr>"
    using assms(1-6) assms(8) by (rule translate_text_caught)
  ultimately show ?thesis by simp
qed

theorem failure_response_hides_cause_witness:
  "fst (translate_text example_config (upstream_raises (RequestException ''Connection refused''))
      (JDict [(''source_lang'', JStr ''en''), (''target_lang'', JStr ''fr''), (''text'', JStr ''Hello'')])) =
   fst (translate_text example_config (upstream_answers 401 (Inr error_payload))
      (JDict [(''source_lang'', JStr ''en''), (''target_lang'', JStr ''fr''), (''text'', JStr ''Hello'')]))
   \<and> fst (translate_text example_config (upstream_raises (RequestException ''Connection refused''))
      (JDict [(''source_lang'', JStr ''en''), (''target_lang'', JStr ''fr''), (''text'', JStr ''Hello'')])) =
     Inr \<lparr>http_status = 500, json_body = JDict [(''error'', JStr ''Translation failed'')]\<rparr>"
proof -
  have first: "(\<exists>e. upstream_raises (RequestException ''Connection refused'')
            (upstream_request example_config (JStr ''en'') (JStr ''fr'') (JStr ''Hello'')) = Inl e \<and>
          is_RequestException e) \<or>
        (\<exists>r. upstream_raises (RequestException ''Connection refused'')
            (upstream_request example_config (JStr ''en'') (JStr ''fr'') (JStr ''Hello'')) = Inr r \<and>
          (400 \<le> status_code r \<and> status_code r < 600 \<or>
           (\<exists>e. json_result r = Inl e \<and> is_RequestException e)))"
    by (simp add: upstream_raises_def)
  have second: "(\<exists>e. upstream_answers 401 (Inr error_payload)
            (upstream_request example_config (JStr ''en'') (JStr ''fr'') (JStr ''Hello'')) = Inl e \<and>
          is_RequestException e) \<or>
        (\<exists>r. upstream_answers 401 (Inr error_payload)
            (upstream_request example_config (JStr ''en'') (JStr ''fr'') (JStr ''Hello'')) = Inr r \<and>
          (400 \<le> status_code r \<and> status_code r < 600 \<or>
           (\<exists>e. json_result r = Inl e \<and> is_RequestException e)))"
    by (simp add: upstream_answers_def)
  show ?thesis
    by (rule failure_response_hides_cause [of
          "[(''source_lang'', JStr ''en''), (''target_lang'', JStr ''fr''), (''text'', JStr ''Hello'')]"
          "JStr ''en''" "JStr ''fr''" "JStr ''Hello''"
          "upstream_raises (RequestException ''Connection refused'')" example_config
          "upstream_answers 401 (Inr error_payload)", OF _ _ _ _ _ _ first second])
       simp_all
qed

text \<open>
  C4 as stated fails on statuses outside 2xx that \<open>raise_for_status\<close> accepts. On the
  same valid request, an upstream answer with status 503 gives the generic 500 response,
  while the same error body with status 300 is decoded and subscripted, and the
  \<open>KeyError\<close> leaves the handler: the two executions do not end in the same response.
\<close>

theorem failure_response_hides_cause_counterexample:
  "fst (translate_text example_config (upstream_answers 503 (Inr error_payload)) example_request) =
     Inr \<lparr>http_status = 500, json_body = JDict [(''error'', JStr ''Translation failed'')]\<rparr>
   \<and> fst (translate_text example_config (upstream_answers 300 (Inr error_payload)) example_request) =
     Inl KeyError"
  by (simp add: evaluation)

subsection \<open>Shape of the responses\<close>

text \<open>
  C5: every response the handler returns has exactly one of two shapes. Either its status
  is 200 and the only key of its body is \<open>translated_text\<close>, or its status is 400 or 500
  and the only key of its body is \<open>error\<close>. No response holds both keys, and a failure
  response holds no \<open>translated_text\<close>.
\<close>

theorem response_has_one_shape:
  assumes "fst (translate_text cfg post data) = Inr r"
  shows "\<exists>fields. json_body r = JDict fields \<and>
     (http_status r = 200 \<and> map fst fields = [''translated_text''] \<or>
      (http_status r = 400 \<or> http_status r = 500) \<and> map fst fields = [''error''])"
  using translate_text_outcomes [of cfg post data] assms
  by (elim disjE exE) auto

theorem response_has_one_shape_witness:
  "\<exists>fields. json_body \<lparr>http_status = 200,
                json_body = JDict [(''translated_text'', JStr ''Bonjour'')]\<rparr> = JDict fields \<and>
     (http_status \<lparr>http_status = 200,
                json_body = JDict [(''translated_text'', JStr ''Bonjour'')]\<rparr> = 200 \<and>
        map fst fields = [''translated_text''] \<or>
      (http_status \<lparr>http_status = 200,
                json_body = JDict [(''translated_text'', JStr ''Bonjour'')]\<rparr> = 400 \<or>
       http_status \<lparr>http_status = 200,
                json_body = JDict [(''translated_text'', JStr ''Bonjour'')]\<rparr> = 500) \<and>
        map fst fields = [''error''])"
proof -
  have "fst (translate_text example_config (upstream_answers 200 (Inr bonjour_payload))
          example_request) =
        Inr \<lparr>http_status = 200, json_body = JDict [(''translated_text'', JStr ''Bonjour'')]\<rparr>"
    by (simp add: evaluation)
  then show ?thesis by (rule response_has_one_shape)
qed

end
